theory Spec2Isabelle
  imports Complex_Main "HOL-Library.AList" "HOL-Library.Char_ord" "HOL-Library.List_Lexorder"
begin

section \<open>Data model\<close>

text \<open>
  The server keeps four Mongoose collections: users, blood inventory, blood requests and
  donations. A document is a record, a collection keyed by \<open>_id\<close> is a map from ids to
  documents, and the inventory collection (one document per blood type, unique index on
  \<open>bloodType\<close>, listed and tested for emptiness by \<open>GET /inventory\<close>) is an association
  list keyed by the blood type. An \<open>ObjectId\<close> is a natural number and a \<open>Date\<close> is its
  number of milliseconds since the epoch, the number JavaScript subtracts. A schema
  \<open>Number\<close> holds a count: it is the integer that the IEEE double has as its value, and
  the sums and differences the handlers compute on it are rounded as doubles are (see the
  section on numbers). A path that may be \<open>null\<close> or \<open>undefined\<close> is an option.
  The ids that reach a handler are well-formed \<open>ObjectId\<close>s.

  Paths that carry no validator and that no route handler reads (names, e-mail, password,
  addresses, contact person, location, attachments, the Mongoose timestamps) are left out
  of the records.
\<close>

type_synonym objectId = nat
type_synonym date = int

definition bloodTypes :: "string list" where
  "bloodTypes = [''A+'', ''A-'', ''B+'', ''B-'', ''AB+'', ''AB-'', ''O+'', ''O-'']"

definition roles :: "string list" where
  "roles = [''donor'', ''recipient'', ''admin'']"

definition urgencies :: "string list" where
  "urgencies = [''low'', ''medium'', ''high'', ''critical'']"

definition request_statuses :: "string list" where
  "request_statuses = [''pending'', ''approved'', ''fulfilled'', ''cancelled'', ''expired'']"

definition donation_statuses :: "string list" where
  "donation_statuses = [''scheduled'', ''completed'', ''cancelled'', ''rejected'']"

record User =
  role :: string
  bloodType :: "string option"
  lastDonation :: "date option"
  donationCount :: int
  isActive :: bool

record BloodInventory =
  unitsAvailable :: int
  lastUpdated :: date
  minimumThreshold :: int
  maxCapacity :: int
  expiringUnits :: "(date \<times> int) list"
  reservedUnits :: int

record BloodRequest =
  requester :: objectId
  patientName :: string
  req_bloodType :: string
  unitsNeeded :: int
  urgency :: string
  hospitalName :: string
  medicalReason :: string
  requiredDate :: date
  req_status :: string
  approvedBy :: "objectId option"
  approvedDate :: "date option"
  fulfilledDate :: "date option"
  req_notes :: string

record PreScreening =
  weight :: "int option"
  bloodPressure :: "string option"
  pulse :: "int option"
  temperature :: "int option"
  hemoglobin :: "int option"
  eligible :: "bool option"

record PostDonation =
  complications :: "bool option"
  post_notes :: "string option"

record Donation =
  donor :: objectId
  donationDate :: date
  don_bloodType :: string
  unitsCollected :: int
  don_status :: string
  preScreening :: "PreScreening option"
  postDonation :: "PostDonation option"
  staffMember :: "objectId option"
  don_notes :: string

record db =
  users :: "objectId \<rightharpoonup> User"
  inventory :: "(string \<times> BloodInventory) list"
  requests :: "objectId \<rightharpoonup> BloodRequest"
  donations :: "objectId \<rightharpoonup> Donation"

text \<open>
  What a handler answers when it does not answer with success:
  \<open>Unauthorized\<close> is status 401, \<open>Forbidden\<close> 403, \<open>NotFound\<close> 404,
  \<open>IneligibleDonor\<close> the 400 of \<open>POST /blood/donate\<close> ("You are not eligible to donate
  yet"), \<open>InvalidState\<close> the 400 of \<open>DELETE /requests/:id\<close> ("Cannot delete request with
  current status"), and \<open>ServerError\<close> the 500 of every \<open>catch\<close> block, which is where a
  Mongoose validation error or a \<open>TypeError\<close> ends.
  A handler returns its answer together with the database it leaves behind: a write that
  was saved before a later statement threw stays written.
\<close>

datatype error = Unauthorized | Forbidden | NotFound | IneligibleDonor | InvalidState | ServerError

type_synonym 'a result = "(error + 'a) \<times> db"

section \<open>Numbers\<close>

text \<open>
  A JavaScript number is an IEEE 754 double. The numbers of this application are counts,
  and a count is modelled by the integer it is; \<open>infinity\<close> and \<open>- infinity\<close> stand for
  the doubles \<open>Infinity\<close> and \<open>-Infinity\<close>, which a body can carry (the JSON literal
  \<open>1e309\<close>) and a sum can reach. Every integer up to \<open>2^53\<close> in magnitude is a double;
  above, the doubles are the multiples of \<open>ulp\<close>, the power of two that leaves 53
  significant bits. \<open>to_double\<close> rounds an integer to the nearest double, a tie to the
  one with the even significand, and to an infinity from \<open>2^1024 - 2^970\<close> on; it is
  what \<open>+\<close> and \<open>-\<close> do to their exact result. \<open>js_add\<close> and \<open>js_sub\<close> are \<open>None\<close>
  when the result is \<open>NaN\<close> (an infinity minus itself): Mongoose refuses to cast \<open>NaN\<close>
  to a \<open>Number\<close> path, and the \<open>save()\<close> that follows throws a validation error.
\<close>

definition infinity :: int where
  "infinity = 2 ^ 1024"

definition is_inf :: "int \<Rightarrow> bool" where
  "is_inf n = (infinity \<le> \<bar>n\<bar>)"

function ulp :: "int \<Rightarrow> int" where
  "ulp m = (if m < 9007199254740992 then 1 else 2 * ulp (m div 2))"
  by pat_completeness auto
termination
proof (relation "measure nat")
  show "wf (measure nat)" by simp
next
  fix m :: int
  assume "\<not> m < 9007199254740992"
  then have "0 < m" by simp
  then have "nat (m div 2) < nat m" by simp
  then show "(m div 2, m) \<in> measure nat" by simp
qed

declare ulp.simps [simp del]

definition to_double :: "int \<Rightarrow> int" where
  "to_double n =
     (let m = \<bar>n\<bar>; q = ulp m; d = m div q; r = m mod q;
          rounded = (if 2 * r < q \<or> (2 * r = q \<and> even d) then d * q else (d + 1) * q)
      in if infinity \<le> rounded then sgn n * infinity else sgn n * rounded)"

definition js_add :: "int \<Rightarrow> int \<Rightarrow> int option" where
  "js_add a b =
     (if is_inf a \<and> is_inf b \<and> sgn a \<noteq> sgn b then None
      else if is_inf a then Some (to_double a)
      else if is_inf b then Some (to_double b)
      else Some (to_double (a + b)))"

definition js_sub :: "int \<Rightarrow> int \<Rightarrow> int option" where
  "js_sub a b = js_add a (- b)"

section \<open>Eligibility rule\<close>

text \<open>
  \<open>userSchema.methods.checkEligibility\<close>; \<open>Date.now()\<close> is the argument \<open>now\<close>.
  \<open>Math.floor\<close> of the quotient is \<open>div\<close> on integers, which rounds towards minus
  infinity as well.
\<close>

definition checkEligibility :: "User \<Rightarrow> date \<Rightarrow> bool" where
  "checkEligibility u now =
     (case lastDonation u of
        None \<Rightarrow> True
      | Some ld \<Rightarrow>
          (let daysSinceLastDonation = (now - ld) div (1000 * 60 * 60 * 24)
           in daysSinceLastDonation \<ge> 56))"

text \<open>
  The rule in the words of the specification, over the reals:
  \<open>isEligible(lastDonation, now)\<close> is true when \<open>lastDonation\<close> is absent and otherwise
  true iff \<open>floor((now - lastDonation) / 1 day) \<ge> 56\<close>.
\<close>

definition one_day :: real where
  "one_day = 86400000"

definition isEligible_spec :: "date option \<Rightarrow> date \<Rightarrow> bool" where
  "isEligible_spec ld now =
     (case ld of None \<Rightarrow> True | Some t \<Rightarrow> 56 \<le> \<lfloor>real_of_int (now - t) / one_day\<rfloor>)"

section \<open>Schema validation and authentication\<close>

text \<open>
  \<open>save()\<close> and \<open>insertMany\<close> run the validators the schemas declare and throw a
  validation error when one fails; nothing is written then. \<open>required\<close> on a string path
  rejects the empty string, \<open>enum\<close> accepts the listed values only, \<open>min\<close> and \<open>max\<close>
  bound a number. A user's \<open>bloodType\<close> is required unless the role is \<open>admin\<close>.
\<close>

definition validate_user :: "User \<Rightarrow> bool" where
  "validate_user u =
     (role u \<in> set roles
      \<and> (case bloodType u of None \<Rightarrow> role u = ''admin'' | Some bt \<Rightarrow> bt \<in> set bloodTypes))"

definition validate_inventory :: "string \<Rightarrow> BloodInventory \<Rightarrow> bool" where
  "validate_inventory bt stock = (bt \<in> set bloodTypes \<and> 0 \<le> unitsAvailable stock)"

definition validate_request :: "BloodRequest \<Rightarrow> bool" where
  "validate_request r =
     (patientName r \<noteq> [] \<and> req_bloodType r \<in> set bloodTypes
      \<and> 1 \<le> unitsNeeded r \<and> unitsNeeded r \<le> 10
      \<and> urgency r \<in> set urgencies
      \<and> hospitalName r \<noteq> [] \<and> medicalReason r \<noteq> []
      \<and> req_status r \<in> set request_statuses)"

definition validate_donation :: "Donation \<Rightarrow> bool" where
  "validate_donation d =
     (don_bloodType d \<in> set bloodTypes
      \<and> 1 \<le> unitsCollected d \<and> unitsCollected d \<le> 2
      \<and> don_status d \<in> set donation_statuses)"

text \<open>
  The \<open>authenticate\<close> middleware, after the token has been decoded to the user id it
  carries: the user must exist and be active, and becomes \<open>req.user\<close>. \<open>authorize\<close>
  tests the role of \<open>req.user\<close>; the handlers answer \<open>Forbidden\<close> when it is false.
\<close>

definition authenticate :: "db \<Rightarrow> objectId \<Rightarrow> error + User" where
  "authenticate s uid =
     (case users s uid of
        None \<Rightarrow> Inl Unauthorized
      | Some user \<Rightarrow> if \<not> isActive user then Inl Unauthorized else Inr user)"

definition authorize :: "string list \<Rightarrow> User \<Rightarrow> bool" where
  "authorize rs user = (role user \<in> set rs)"

text \<open>JavaScript's \<open>a || b\<close> on a string that may be absent: the empty string is falsy.\<close>

definition or_string :: "string option \<Rightarrow> string \<Rightarrow> string" where
  "or_string a b = (case a of None \<Rightarrow> b | Some v \<Rightarrow> if v = [] then b else v)"

section \<open>Inventory routes\<close>

definition new_BloodInventory :: "date \<Rightarrow> BloodInventory" where
  "new_BloodInventory now =
     \<lparr>unitsAvailable = 0, lastUpdated = now, minimumThreshold = 10, maxCapacity = 100,
      expiringUnits = [], reservedUnits = 0\<rparr>"

definition isLowStock :: "BloodInventory \<Rightarrow> bool" where
  "isLowStock stock = (unitsAvailable stock \<le> minimumThreshold stock)"

definition getAvailableUnits :: "BloodInventory \<Rightarrow> int option" where
  "getAvailableUnits stock =
     map_option (max 0) (js_sub (unitsAvailable stock) (reservedUnits stock))"

definition save_inventory :: "string \<Rightarrow> BloodInventory \<Rightarrow> db \<Rightarrow> BloodInventory result" where
  "save_inventory bt stock s =
     (if validate_inventory bt stock
      then (Inr stock, s\<lparr>inventory := AList.update bt stock (inventory s)\<rparr>)
      else (Inl ServerError, s))"

text \<open>\<open>GET /inventory\<close>: seeds the eight records when the collection is empty.\<close>

definition get_inventory :: "db \<Rightarrow> objectId \<Rightarrow> date \<Rightarrow> (string \<times> BloodInventory) list result" where
  "get_inventory s uid now =
     (case authenticate s uid of
        Inl e \<Rightarrow> (Inl e, s)
      | Inr user \<Rightarrow>
          if inventory s = []
          then (let defaultInventory =
                      map (\<lambda>t. (t, (new_BloodInventory now)
                                      \<lparr>unitsAvailable := 0, minimumThreshold := 10,
                                       maxCapacity := 100\<rparr>)) bloodTypes;
                    s' = s\<lparr>inventory := defaultInventory\<rparr>
                in (Inr (sort_key fst (inventory s')), s'))
          else (Inr (sort_key fst (inventory s)), s))"

text \<open>\<open>PATCH /inventory/:bloodType\<close>: the body's three optional fields.\<close>

record InventoryBody =
  ib_unitsAvailable :: "int option"
  ib_minimumThreshold :: "int option"
  ib_maxCapacity :: "int option"

definition update_inventory ::
  "db \<Rightarrow> objectId \<Rightarrow> string \<Rightarrow> InventoryBody \<Rightarrow> date \<Rightarrow> BloodInventory result" where
  "update_inventory s uid bt body now =
     (case authenticate s uid of
        Inl e \<Rightarrow> (Inl e, s)
      | Inr user \<Rightarrow>
          if \<not> authorize [''admin''] user then (Inl Forbidden, s)
          else
            (let inv0 = (case map_of (inventory s) bt of
                           None \<Rightarrow> new_BloodInventory now
                         | Some found \<Rightarrow> found);
                 inv1 = (case ib_unitsAvailable body of
                           None \<Rightarrow> inv0 | Some v \<Rightarrow> inv0\<lparr>unitsAvailable := v\<rparr>);
                 inv2 = (case ib_minimumThreshold body of
                           None \<Rightarrow> inv1 | Some v \<Rightarrow> inv1\<lparr>minimumThreshold := v\<rparr>);
                 inv3 = (case ib_maxCapacity body of
                           None \<Rightarrow> inv2 | Some v \<Rightarrow> inv2\<lparr>maxCapacity := v\<rparr>)
             in save_inventory bt (inv3\<lparr>lastUpdated := now\<rparr>) s))"

text \<open>
  \<open>POST /inventory/add-units\<close>: \<open>units\<close> is the number of the body; \<open>expiryDate\<close> is
  \<open>None\<close> when the body's value is falsy and otherwise the date it parses to. A sum that
  is \<open>NaN\<close> is not assigned, and the \<open>save()\<close> at the end throws.
\<close>

definition add_units ::
  "db \<Rightarrow> objectId \<Rightarrow> string \<Rightarrow> int \<Rightarrow> date option \<Rightarrow> date \<Rightarrow> BloodInventory result" where
  "add_units s uid bt units expiryDate now =
     (case authenticate s uid of
        Inl e \<Rightarrow> (Inl e, s)
      | Inr user \<Rightarrow>
          if \<not> authorize [''admin''] user then (Inl Forbidden, s)
          else
            (let inv0 = (case map_of (inventory s) bt of
                           None \<Rightarrow> new_BloodInventory now
                         | Some found \<Rightarrow> found)
             in case js_add (unitsAvailable inv0) units of
                  None \<Rightarrow> (Inl ServerError, s)
                | Some summed \<Rightarrow>
                    (let inv1 = inv0\<lparr>unitsAvailable := summed\<rparr>;
                         inv2 = (case expiryDate of
                                   None \<Rightarrow> inv1
                                 | Some e \<Rightarrow>
                                     inv1\<lparr>expiringUnits := expiringUnits inv1 @ [(e, units)]\<rparr>)
                     in save_inventory bt (inv2\<lparr>lastUpdated := now\<rparr>) s)))"

section \<open>Request routes\<close>

text \<open>
  \<open>POST /requests\<close>: \<open>new BloodRequest({...req.body, requester: req.user.id})\<close>. Every
  schema path of the body is copied; a path the body leaves out takes the schema default.
  \<open>new_BloodRequest\<close> is \<open>None\<close> when a required path is absent, which \<open>save()\<close> rejects.
  The fresh \<open>_id\<close> is the argument \<open>nid\<close>.
\<close>

record RequestBody =
  rb_patientName :: "string option"
  rb_bloodType :: "string option"
  rb_unitsNeeded :: "int option"
  rb_urgency :: "string option"
  rb_hospitalName :: "string option"
  rb_medicalReason :: "string option"
  rb_requiredDate :: "date option"
  rb_status :: "string option"
  rb_approvedBy :: "objectId option"
  rb_approvedDate :: "date option"
  rb_fulfilledDate :: "date option"
  rb_notes :: "string option"

definition new_BloodRequest :: "RequestBody \<Rightarrow> objectId \<Rightarrow> BloodRequest option" where
  "new_BloodRequest body uid =
     (case (rb_patientName body, rb_bloodType body, rb_unitsNeeded body,
            rb_hospitalName body, rb_medicalReason body, rb_requiredDate body) of
        (Some pn, Some bt, Some n, Some hn, Some mr, Some rd) \<Rightarrow>
          Some \<lparr>requester = uid, patientName = pn, req_bloodType = bt, unitsNeeded = n,
                urgency = (case rb_urgency body of None \<Rightarrow> ''medium'' | Some u \<Rightarrow> u),
                hospitalName = hn, medicalReason = mr, requiredDate = rd,
                req_status = (case rb_status body of None \<Rightarrow> ''pending'' | Some st \<Rightarrow> st),
                approvedBy = rb_approvedBy body, approvedDate = rb_approvedDate body,
                fulfilledDate = rb_fulfilledDate body,
                req_notes = (case rb_notes body of None \<Rightarrow> [] | Some n \<Rightarrow> n)\<rparr>
      | _ \<Rightarrow> None)"

definition save_request :: "objectId \<Rightarrow> BloodRequest \<Rightarrow> db \<Rightarrow> BloodRequest result" where
  "save_request rid r s =
     (if validate_request r
      then (Inr r, s\<lparr>requests := (requests s)(rid \<mapsto> r)\<rparr>)
      else (Inl ServerError, s))"

definition create_request ::
  "db \<Rightarrow> objectId \<Rightarrow> objectId \<Rightarrow> RequestBody \<Rightarrow> BloodRequest result" where
  "create_request s uid nid body =
     (case authenticate s uid of
        Inl e \<Rightarrow> (Inl e, s)
      | Inr user \<Rightarrow>
          (case new_BloodRequest body uid of
             None \<Rightarrow> (Inl ServerError, s)
           | Some bloodRequest \<Rightarrow> save_request nid bloodRequest s))"

text \<open>
  \<open>PATCH /requests/:id/status\<close>, for a body that carries a \<open>status\<close> string and
  optional \<open>notes\<close>. The inventory document is saved before the request is; a
  difference that is \<open>NaN\<close> is not assigned and that save throws.
\<close>

definition update_request_status ::
  "db \<Rightarrow> objectId \<Rightarrow> objectId \<Rightarrow> string \<Rightarrow> string option \<Rightarrow> date \<Rightarrow> BloodRequest result" where
  "update_request_status s uid rid status notes now =
     (case authenticate s uid of
        Inl e \<Rightarrow> (Inl e, s)
      | Inr user \<Rightarrow>
          if \<not> authorize [''admin''] user then (Inl Forbidden, s)
          else
            (case requests s rid of
               None \<Rightarrow> (Inl NotFound, s)
             | Some found \<Rightarrow>
                 (let r1 = found\<lparr>req_status := status,
                                 req_notes := or_string notes (req_notes found)\<rparr>;
                      r2 = (if status = ''approved''
                            then r1\<lparr>approvedBy := Some uid, approvedDate := Some now\<rparr>
                            else r1)
                  in if status = ''fulfilled''
                     then
                       (let r3 = r2\<lparr>fulfilledDate := Some now\<rparr>
                        in case map_of (inventory s) (req_bloodType r3) of
                             None \<Rightarrow> save_request rid r3 s
                           | Some stock \<Rightarrow>
                               if unitsAvailable stock \<ge> unitsNeeded r3
                               then
                                 (case js_sub (unitsAvailable stock) (unitsNeeded r3) of
                                    None \<Rightarrow> (Inl ServerError, s)
                                  | Some remaining \<Rightarrow>
                                      (case save_inventory (req_bloodType r3)
                                              (stock\<lparr>unitsAvailable := remaining,
                                                     lastUpdated := now\<rparr>) s of
                                         (Inl e, s') \<Rightarrow> (Inl e, s')
                                       | (Inr saved, s') \<Rightarrow> save_request rid r3 s'))
                               else save_request rid r3 s)
                     else save_request rid r2 s)))"

text \<open>\<open>DELETE /requests/:id\<close>.\<close>

definition delete_request :: "db \<Rightarrow> objectId \<Rightarrow> objectId \<Rightarrow> unit result" where
  "delete_request s uid rid =
     (case authenticate s uid of
        Inl e \<Rightarrow> (Inl e, s)
      | Inr user \<Rightarrow>
          (case requests s rid of
             None \<Rightarrow> (Inl NotFound, s)
           | Some request \<Rightarrow>
               if role user \<noteq> ''admin'' \<and> requester request \<noteq> uid
               then (Inl Forbidden, s)
               else if req_status request \<notin> set [''pending'', ''cancelled'']
               then (Inl InvalidState, s)
               else (Inr (), s\<lparr>requests := (requests s)(rid := None)\<rparr>)))"

section \<open>Donation routes\<close>

text \<open>
  \<open>POST /blood/donate\<close>:
  \<open>new Donation({...req.body, donor: req.user.id, bloodType: donor.bloodType})\<close>.
  The body's own \<open>donor\<close> and \<open>bloodType\<close> are overwritten by the two keys written after
  the spread; every other schema path of the body is copied. \<open>new_Donation\<close> is \<open>None\<close>
  when a required path (\<open>donationDate\<close>, or \<open>bloodType\<close> for a user without one) is
  absent, which \<open>save()\<close> rejects.
\<close>

record DonateBody =
  dn_donationDate :: "date option"
  dn_bloodType :: "string option"
  dn_unitsCollected :: "int option"
  dn_status :: "string option"
  dn_preScreening :: "PreScreening option"
  dn_postDonation :: "PostDonation option"
  dn_staffMember :: "objectId option"
  dn_notes :: "string option"

definition new_Donation :: "DonateBody \<Rightarrow> objectId \<Rightarrow> string option \<Rightarrow> Donation option" where
  "new_Donation body uid donorBloodType =
     (case (dn_donationDate body, donorBloodType) of
        (Some dd, Some bt) \<Rightarrow>
          Some \<lparr>donor = uid, donationDate = dd, don_bloodType = bt,
                unitsCollected = (case dn_unitsCollected body of None \<Rightarrow> 1 | Some n \<Rightarrow> n),
                don_status = (case dn_status body of None \<Rightarrow> ''scheduled'' | Some st \<Rightarrow> st),
                preScreening = dn_preScreening body, postDonation = dn_postDonation body,
                staffMember = dn_staffMember body,
                don_notes = (case dn_notes body of None \<Rightarrow> [] | Some n \<Rightarrow> n)\<rparr>
      | _ \<Rightarrow> None)"

definition save_donation :: "objectId \<Rightarrow> Donation \<Rightarrow> db \<Rightarrow> Donation result" where
  "save_donation did d s =
     (if validate_donation d
      then (Inr d, s\<lparr>donations := (donations s)(did \<mapsto> d)\<rparr>)
      else (Inl ServerError, s))"

definition schedule_donation ::
  "db \<Rightarrow> objectId \<Rightarrow> objectId \<Rightarrow> DonateBody \<Rightarrow> date \<Rightarrow> Donation result" where
  "schedule_donation s uid nid body now =
     (case authenticate s uid of
        Inl e \<Rightarrow> (Inl e, s)
      | Inr user \<Rightarrow>
          (case users s uid of
             None \<Rightarrow> (Inl ServerError, s)
           | Some dnr \<Rightarrow>
               if \<not> checkEligibility dnr now then (Inl IneligibleDonor, s)
               else
                 (case new_Donation body uid (bloodType dnr) of
                    None \<Rightarrow> (Inl ServerError, s)
                  | Some donation \<Rightarrow> save_donation nid donation s)))"

text \<open>
  \<open>PATCH /blood/:id/status\<close>, for a body that carries a \<open>status\<close> string. A body
  number \<open>unitsCollected\<close> is falsy when absent or zero. The donor is the populated
  \<open>donation.donor\<close>; when that user is gone, \<open>donor.lastDonation = ...\<close> throws. The donor
  is saved first, then the inventory document, then the donation; a sum that is \<open>NaN\<close> is
  not assigned and the save of its document throws.
\<close>

record DonationStatusBody =
  sb_status :: string
  sb_preScreening :: "PreScreening option"
  sb_postDonation :: "PostDonation option"
  sb_notes :: "string option"
  sb_unitsCollected :: "int option"

definition save_user :: "objectId \<Rightarrow> User \<Rightarrow> db \<Rightarrow> User result" where
  "save_user uid u s =
     (if validate_user u
      then (Inr u, s\<lparr>users := (users s)(uid \<mapsto> u)\<rparr>)
      else (Inl ServerError, s))"

text \<open>
  The assignments the handler makes to the loaded donation before it looks at the status
  (\<open>donation.status = status\<close> down to \<open>if (unitsCollected) ...\<close>).
\<close>

definition apply_status_body :: "DonationStatusBody \<Rightarrow> objectId \<Rightarrow> Donation \<Rightarrow> Donation" where
  "apply_status_body body uid found =
     (let d1 = found\<lparr>don_status := sb_status body, staffMember := Some uid,
                     don_notes := or_string (sb_notes body) (don_notes found)\<rparr>;
          d2 = (case sb_preScreening body of
                  None \<Rightarrow> d1 | Some ps \<Rightarrow> d1\<lparr>preScreening := Some ps\<rparr>);
          d3 = (case sb_postDonation body of
                  None \<Rightarrow> d2 | Some pd \<Rightarrow> d2\<lparr>postDonation := Some pd\<rparr>)
      in case sb_unitsCollected body of
           None \<Rightarrow> d3
         | Some n \<Rightarrow> if n = 0 then d3 else d3\<lparr>unitsCollected := n\<rparr>)"

definition update_donation_status ::
  "db \<Rightarrow> objectId \<Rightarrow> objectId \<Rightarrow> DonationStatusBody \<Rightarrow> date \<Rightarrow> Donation result" where
  "update_donation_status s uid did body now =
     (case authenticate s uid of
        Inl e \<Rightarrow> (Inl e, s)
      | Inr user \<Rightarrow>
          if \<not> authorize [''admin''] user then (Inl Forbidden, s)
          else
            (case donations s did of
               None \<Rightarrow> (Inl NotFound, s)
             | Some found \<Rightarrow>
                 (let donation = apply_status_body body uid found
                  in if sb_status body = ''completed''
                     then
                       (case users s (donor donation) of
                          None \<Rightarrow> (Inl ServerError, s)
                        | Some dnr \<Rightarrow>
                            (case js_add (donationCount dnr) 1 of
                               None \<Rightarrow> (Inl ServerError, s)
                             | Some counted \<Rightarrow>
                                 (case save_user (donor donation)
                                         (dnr\<lparr>lastDonation := Some (donationDate donation),
                                              donationCount := counted\<rparr>) s of
                                    (Inl e, s1) \<Rightarrow> (Inl e, s1)
                                  | (Inr saved, s1) \<Rightarrow>
                                      (case map_of (inventory s1) (don_bloodType donation) of
                                         None \<Rightarrow> save_donation did donation s1
                                       | Some stock \<Rightarrow>
                                           (case js_add (unitsAvailable stock)
                                                   (if unitsCollected donation = 0 then 1
                                                    else unitsCollected donation) of
                                              None \<Rightarrow> (Inl ServerError, s1)
                                            | Some summed \<Rightarrow>
                                                (case save_inventory (don_bloodType donation)
                                                        (stock\<lparr>unitsAvailable := summed,
                                                               lastUpdated := now\<rparr>) s1 of
                                                   (Inl e, s2) \<Rightarrow> (Inl e, s2)
                                                 | (Inr saved', s2) \<Rightarrow>
                                                     save_donation did donation s2))))))
                     else save_donation did donation s)))"

section \<open>Sequences of calls\<close>

text \<open>
  One call of the API with its arguments; \<open>exec\<close> runs a call and keeps the database it
  leaves behind, whatever the answer was, and \<open>run\<close> runs calls one at a time.
\<close>

datatype call =
    GetInventory objectId date
  | UpdateInventory objectId string InventoryBody date
  | AddUnits objectId string int "date option" date
  | CreateRequest objectId objectId RequestBody
  | UpdateRequestStatus objectId objectId string "string option" date
  | DeleteRequest objectId objectId
  | ScheduleDonation objectId objectId DonateBody date
  | UpdateDonationStatus objectId objectId DonationStatusBody date

fun exec :: "call \<Rightarrow> db \<Rightarrow> db" where
  "exec (GetInventory uid now) s = snd (get_inventory s uid now)"
| "exec (UpdateInventory uid bt body now) s = snd (update_inventory s uid bt body now)"
| "exec (AddUnits uid bt units e now) s = snd (add_units s uid bt units e now)"
| "exec (CreateRequest uid nid body) s = snd (create_request s uid nid body)"
| "exec (UpdateRequestStatus uid rid status notes now) s =
     snd (update_request_status s uid rid status notes now)"
| "exec (DeleteRequest uid rid) s = snd (delete_request s uid rid)"
| "exec (ScheduleDonation uid nid body now) s = snd (schedule_donation s uid nid body now)"
| "exec (UpdateDonationStatus uid did body now) s =
     snd (update_donation_status s uid did body now)"

fun run :: "call list \<Rightarrow> db \<Rightarrow> db" where
  "run [] s = s"
| "run (c # cs) s = run cs (exec c s)"

text \<open>Every stored inventory record has a non-negative \<open>unitsAvailable\<close>.\<close>

definition units_nonneg :: "db \<Rightarrow> bool" where
  "units_nonneg s = list_all (\<lambda>(bt, stock). 0 \<le> unitsAvailable stock) (inventory s)"

section \<open>A sample database\<close>

text \<open>
  An admin (user 1), a donor of type O+ who never donated (user 2), a recipient (user 3)
  and a donor who donated at time 0 (user 4); five units of O+ in stock; a pending request
  for two units of O+ (request 10), an approved request for eight units of O+ (request 11)
  and a scheduled and a completed donation (20 and 21) of user 2.
\<close>

definition admin_user :: User where
  "admin_user = \<lparr>role = ''admin'', bloodType = None, lastDonation = None,
                  donationCount = 0, isActive = True\<rparr>"

definition donor_user :: User where
  "donor_user = \<lparr>role = ''donor'', bloodType = Some ''O+'', lastDonation = None,
                  donationCount = 0, isActive = True\<rparr>"

definition recipient_user :: User where
  "recipient_user = \<lparr>role = ''recipient'', bloodType = Some ''A-'', lastDonation = None,
                      donationCount = 0, isActive = True\<rparr>"

definition recent_donor :: User where
  "recent_donor = \<lparr>role = ''donor'', bloodType = Some ''B+'', lastDonation = Some 0,
                    donationCount = 1, isActive = True\<rparr>"

definition stock_Opos :: BloodInventory where
  "stock_Opos = \<lparr>unitsAvailable = 5, lastUpdated = 0, minimumThreshold = 10,
                  maxCapacity = 100, expiringUnits = [], reservedUnits = 0\<rparr>"

definition request_small :: BloodRequest where
  "request_small = \<lparr>requester = 3, patientName = ''P'', req_bloodType = ''O+'',
                     unitsNeeded = 2, urgency = ''medium'', hospitalName = ''H'',
                     medicalReason = ''M'', requiredDate = 5000, req_status = ''pending'',
                     approvedBy = None, approvedDate = None, fulfilledDate = None,
                     req_notes = []\<rparr>"

definition request_large :: BloodRequest where
  "request_large = request_small\<lparr>unitsNeeded := 8, req_status := ''approved'',
                                  approvedBy := Some 1, approvedDate := Some 100\<rparr>"

definition donation_scheduled :: Donation where
  "donation_scheduled = \<lparr>donor = 2, donationDate = 700, don_bloodType = ''O+'',
                          unitsCollected = 1, don_status = ''scheduled'',
                          preScreening = None, postDonation = None, staffMember = None,
                          don_notes = []\<rparr>"

definition donation_completed :: Donation where
  "donation_completed = donation_scheduled\<lparr>don_status := ''completed'',
                                            staffMember := Some 1\<rparr>"

definition sample_db :: db where
  "sample_db =
     \<lparr>users = [1 \<mapsto> admin_user, 2 \<mapsto> donor_user, 3 \<mapsto> recipient_user, 4 \<mapsto> recent_donor],
      inventory = [(''O+'', stock_Opos)],
      requests = [10 \<mapsto> request_small, 11 \<mapsto> request_large],
      donations = [20 \<mapsto> donation_scheduled, 21 \<mapsto> donation_completed]\<rparr>"

text \<open>The same database before anybody has listed the inventory: no inventory record.\<close>

definition unseeded_db :: db where
  "unseeded_db = sample_db\<lparr>inventory := []\<rparr>"

definition empty_RequestBody :: RequestBody where
  "empty_RequestBody =
     \<lparr>rb_patientName = None, rb_bloodType = None, rb_unitsNeeded = None, rb_urgency = None,
      rb_hospitalName = None, rb_medicalReason = None, rb_requiredDate = None,
      rb_status = None, rb_approvedBy = None, rb_approvedDate = None,
      rb_fulfilledDate = None, rb_notes = None\<rparr>"

definition request_form :: RequestBody where
  "request_form =
     empty_RequestBody\<lparr>rb_patientName := Some ''P'', rb_bloodType := Some ''AB-'',
                        rb_unitsNeeded := Some 3, rb_hospitalName := Some ''H'',
                        rb_medicalReason := Some ''M'', rb_requiredDate := Some 5000\<rparr>"

definition donate_form :: DonateBody where
  "donate_form =
     \<lparr>dn_donationDate = Some 900, dn_bloodType = None, dn_unitsCollected = None,
      dn_status = None, dn_preScreening = None, dn_postDonation = None,
      dn_staffMember = None, dn_notes = None\<rparr>"

definition status_only :: "string \<Rightarrow> DonationStatusBody" where
  "status_only st =
     \<lparr>sb_status = st, sb_preScreening = None, sb_postDonation = None, sb_notes = None,
      sb_unitsCollected = None\<rparr>"

text \<open>Documents that the calls of the examples below create.\<close>

definition request_created :: BloodRequest where
  "request_created = \<lparr>requester = 3, patientName = ''P'', req_bloodType = ''AB-'',
                     unitsNeeded = 3, urgency = ''medium'', hospitalName = ''H'',
                     medicalReason = ''M'', requiredDate = 5000, req_status = ''fulfilled'',
                     approvedBy = None, approvedDate = None, fulfilledDate = None,
                     req_notes = []\<rparr>"

definition donation_created :: Donation where
  "donation_created = \<lparr>donor = 2, donationDate = 900, don_bloodType = ''O+'',
                        unitsCollected = 1, don_status = ''scheduled'',
                        preScreening = None, postDonation = None, staffMember = None,
                        don_notes = []\<rparr>"



text \<open>
  Five calls of the admin: add-units of minus nine (rejected by the validator), fulfilment
  of the request for eight units (no deduction), fulfilment of the request for two units,
  completion of the scheduled donation, and an overwrite with minus one (rejected).
\<close>

definition sample_calls :: "call list" where
  "sample_calls =
     [AddUnits 1 ''O+'' (- 9) None 50,
      UpdateRequestStatus 1 11 ''fulfilled'' None 60,
      UpdateRequestStatus 1 10 ''fulfilled'' None 70,
      UpdateDonationStatus 1 20 (status_only ''completed'') 80,
      UpdateInventory 1 ''O+''
        \<lparr>ib_unitsAvailable = Some (- 1), ib_minimumThreshold = None, ib_maxCapacity = None\<rparr>
        90]"





definition stock_full :: BloodInventory where
  "stock_full = stock_Opos\<lparr>unitsAvailable := 9007199254740992\<rparr>"

definition full_db :: db where
  "full_db = sample_db\<lparr>inventory := [(''O+'', stock_full)]\<rparr>"

section \<open>Properties\<close>

subsection \<open>Eligibility\<close>

lemma floor_days: "\<lfloor>real_of_int d / one_day\<rfloor> = d div 86400000"
proof -
  have "real_of_int d / one_day = real_of_int d / real_of_int 86400000"
    by (simp add: one_day_def)
  then show ?thesis
    by (simp only: floor_divide_of_int_eq)
qed

lemma ge56_floor_days: "(56 \<le> \<lfloor>real_of_int d / one_day\<rfloor>) = (56 \<le> d div 86400000)"
  by (simp only: floor_days)

lemma checkEligibility_Some:
  "lastDonation u = Some ld \<Longrightarrow> checkEligibility u now = (56 \<le> (now - ld) div 86400000)"
  by (simp add: checkEligibility_def)

lemma checkEligibility_None: "lastDonation u = None \<Longrightarrow> checkEligibility u now"
  by (simp add: checkEligibility_def)

text \<open>
  C3. The eligibility check is true when \<open>lastDonation\<close> is absent, and otherwise it is
  true exactly when the floor of the gap in days is at least 56: the method of the user
  schema computes the rule of the specification. A gap of exactly 56 days is eligible, a
  gap of 55 days is not, and neither is a gap one millisecond short of 56 days.
\<close>

theorem checkEligibility_spec:
  "checkEligibility u now = isEligible_spec (lastDonation u) now
   \<and> checkEligibility (u\<lparr>lastDonation := None\<rparr>) now
   \<and> checkEligibility (u\<lparr>lastDonation := Some ld\<rparr>) now
       = (56 \<le> \<lfloor>real_of_int (now - ld) / one_day\<rfloor>)
   \<and> checkEligibility (u\<lparr>lastDonation := Some (now - 56 * 86400000)\<rparr>) now
   \<and> \<not> checkEligibility (u\<lparr>lastDonation := Some (now - 55 * 86400000)\<rparr>) now
   \<and> \<not> checkEligibility (u\<lparr>lastDonation := Some (now - (56 * 86400000 - 1))\<rparr>) now"
proof -
  have spec: "checkEligibility u now = isEligible_spec (lastDonation u) now"
  proof (cases "lastDonation u")
    case None
    then show ?thesis
      by (simp add: checkEligibility_None isEligible_spec_def)
  next
    case (Some t)
    then show ?thesis
      unfolding isEligible_spec_def
      by (simp only: checkEligibility_Some option.case ge56_floor_days)
  qed
  have absent: "checkEligibility (u\<lparr>lastDonation := None\<rparr>) now"
    by (simp add: checkEligibility_None)
  have present: "checkEligibility (u\<lparr>lastDonation := Some ld\<rparr>) now
       = (56 \<le> \<lfloor>real_of_int (now - ld) / one_day\<rfloor>)"
    by (simp only: ge56_floor_days) (simp add: checkEligibility_Some)
  have d56: "checkEligibility (u\<lparr>lastDonation := Some (now - 56 * 86400000)\<rparr>) now"
    by (simp add: checkEligibility_Some)
  have d55: "\<not> checkEligibility (u\<lparr>lastDonation := Some (now - 55 * 86400000)\<rparr>) now"
    by (simp add: checkEligibility_Some)
  have short: "\<not> checkEligibility (u\<lparr>lastDonation := Some (now - (56 * 86400000 - 1))\<rparr>) now"
    by (simp add: checkEligibility_Some)
  from spec absent present d56 d55 short show ?thesis
    by (intro conjI)
qed

subsection \<open>Deleting a request\<close>

lemma authenticate_InrD:
  "authenticate s uid = Inr user \<Longrightarrow> users s uid = Some user \<and> isActive user"
  by (simp add: authenticate_def split: option.splits if_splits)

text \<open>
  C9. For an existing request, deletion by its owner or by an admin succeeds exactly when
  the status is \<open>pending\<close> or \<open>cancelled\<close>, and then the request is gone; in any other
  status the answer is \<open>InvalidState\<close>, the database is unchanged and the request is
  still stored.
\<close>

theorem delete_request_status:
  assumes auth: "authenticate s uid = Inr user"
    and found: "requests s rid = Some r"
    and allowed: "role user = ''admin'' \<or> requester r = uid"
  shows "delete_request s uid rid =
           (if req_status r = ''pending'' \<or> req_status r = ''cancelled''
            then (Inr (), s\<lparr>requests := (requests s)(rid := None)\<rparr>)
            else (Inl InvalidState, s))
         \<and> (fst (delete_request s uid rid) = Inr ())
             = (req_status r = ''pending'' \<or> req_status r = ''cancelled'')
         \<and> requests (snd (delete_request s uid rid)) rid
             = (if req_status r = ''pending'' \<or> req_status r = ''cancelled''
                then None else Some r)"
  using assms by (auto simp: delete_request_def)

theorem delete_request_status_witness:
  "authenticate sample_db 3 = Inr recipient_user
   \<and> requests sample_db 11 = Some request_large
   \<and> requests sample_db 10 = Some request_small
   \<and> requester request_large = 3
   \<and> delete_request sample_db 3 11 = (Inl InvalidState, sample_db)
   \<and> delete_request sample_db 3 10
       = (Inr (), sample_db\<lparr>requests := (requests sample_db)(10 := None)\<rparr>)"
  using delete_request_status [of sample_db 3 recipient_user 11 request_large]
    delete_request_status [of sample_db 3 recipient_user 10 request_small]
  by (simp add: authenticate_def sample_db_def recipient_user_def request_large_def
      request_small_def)

subsection \<open>Arithmetic on counts\<close>

lemma ulp_small: "m < 9007199254740992 \<Longrightarrow> ulp m = 1"
  by (simp add: ulp.simps)

lemma ulp_two_53: "ulp 9007199254740992 = 2"
  by (simp add: ulp.simps [of 9007199254740992] ulp_small)


lemma not_inf_small: "\<bar>n\<bar> \<le> 9007199254740992 \<Longrightarrow> \<not> is_inf n"
  by (simp add: is_inf_def infinity_def)

lemma to_double_exact: "\<bar>n\<bar> \<le> 9007199254740992 \<Longrightarrow> to_double n = n"
proof (cases "\<bar>n\<bar> = 9007199254740992")
  case True
  then show ?thesis
    by (simp add: to_double_def ulp_two_53 Let_def infinity_def sgn_if) linarith
next
  case False
  assume "\<bar>n\<bar> \<le> 9007199254740992"
  with False have small: "\<bar>n\<bar> < 9007199254740992" by simp
  then have "\<not> infinity \<le> \<bar>n\<bar>"
    by (simp add: infinity_def)
  then show ?thesis
    using small by (simp add: to_double_def ulp_small Let_def sgn_if)
qed


lemma js_add_exact:
  "\<bar>a\<bar> \<le> 9007199254740992 \<Longrightarrow> \<bar>b\<bar> \<le> 9007199254740992 \<Longrightarrow>
   \<bar>a + b\<bar> \<le> 9007199254740992 \<Longrightarrow> js_add a b = Some (a + b)"
  by (simp add: js_add_def not_inf_small to_double_exact)

lemma js_sub_exact:
  "\<bar>a\<bar> \<le> 9007199254740992 \<Longrightarrow> \<bar>b\<bar> \<le> 9007199254740992 \<Longrightarrow>
   \<bar>a - b\<bar> \<le> 9007199254740992 \<Longrightarrow> js_sub a b = Some (a - b)"
  by (simp add: js_sub_def js_add_exact)


lemma to_double_above_two_53: "to_double 9007199254740993 = 9007199254740992"
  by (simp add: to_double_def ulp.simps [of 9007199254740993] ulp_small Let_def infinity_def)


lemma js_add_rounds: "js_add 9007199254740992 1 = Some 9007199254740992"
  by (simp add: js_add_def is_inf_def infinity_def to_double_above_two_53)

subsection \<open>Fulfilling a request\<close>






subsection \<open>Creating a request\<close>

lemma new_BloodRequest_status:
  "new_BloodRequest body uid = Some r \<Longrightarrow>
   req_status r = (case rb_status body of None \<Rightarrow> ''pending'' | Some st \<Rightarrow> st)"
  by (auto simp: new_BloodRequest_def split: option.splits)

lemma create_request_inventory:
  "inventory (snd (create_request s uid nid body)) = inventory s"
  by (simp add: create_request_def save_request_def split: sum.splits option.splits)

lemma create_request_ignores_inventory:
  "create_request (s\<lparr>inventory := other\<rparr>) uid nid body
     = (fst (create_request s uid nid body),
        (snd (create_request s uid nid body))\<lparr>inventory := other\<rparr>)"
  by (simp add: create_request_def save_request_def authenticate_def
      split: sum.splits option.splits)

text \<open>
  C4, as stated, fails: the handler copies every path of the body into the new document,
  so a recipient who sends \<open>status: 'fulfilled'\<close> creates a request that is fulfilled
  from the start. The schema's \<open>pending\<close> is a default, used when the body has no status.
\<close>

theorem create_request_pending_counterexample:
  "authenticate sample_db 3 = Inr recipient_user
   \<and> role recipient_user = ''recipient''
   \<and> create_request sample_db 3 12 (request_form\<lparr>rb_status := Some ''fulfilled''\<rparr>)
       = (Inr request_created,
          sample_db\<lparr>requests := (requests sample_db)(12 \<mapsto> request_created)\<rparr>)
   \<and> req_status request_created \<noteq> ''pending''"
  by (simp add: create_request_def authenticate_def sample_db_def recipient_user_def
      request_form_def empty_RequestBody_def new_BloodRequest_def save_request_def
      validate_request_def request_created_def bloodTypes_def urgencies_def
      request_statuses_def)

text \<open>
  C4, amended. A creation call of an authenticated user whose body carries the required
  paths and passes the validators stores the new request with the status the body
  supplies, and with \<open>pending\<close> when the body supplies none. The creation neither
  reads nor writes the inventory: the inventory is the same afterwards, and the same
  request is created whatever the inventory holds.
\<close>

theorem create_request_status:
  assumes auth: "authenticate s uid = Inr user"
    and built: "new_BloodRequest body uid = Some r"
    and valid: "validate_request r"
  shows "create_request s uid nid body = (Inr r, s\<lparr>requests := (requests s)(nid \<mapsto> r)\<rparr>)
         \<and> req_status r = (case rb_status body of None \<Rightarrow> ''pending'' | Some st \<Rightarrow> st)
         \<and> inventory (snd (create_request s uid nid body)) = inventory s
         \<and> create_request (s\<lparr>inventory := other\<rparr>) uid nid body
             = (Inr r, s\<lparr>inventory := other, requests := (requests s)(nid \<mapsto> r)\<rparr>)"
proof -
  have res: "create_request s uid nid body = (Inr r, s\<lparr>requests := (requests s)(nid \<mapsto> r)\<rparr>)"
    using assms by (simp add: create_request_def save_request_def)
  have st: "req_status r = (case rb_status body of None \<Rightarrow> ''pending'' | Some st \<Rightarrow> st)"
    using built by (rule new_BloodRequest_status)
  have stock: "inventory (snd (create_request s uid nid body)) = inventory s"
    by (rule create_request_inventory)
  have indep: "create_request (s\<lparr>inventory := other\<rparr>) uid nid body
             = (Inr r, s\<lparr>inventory := other, requests := (requests s)(nid \<mapsto> r)\<rparr>)"
    by (simp add: create_request_ignores_inventory res)
  from res st stock indep show ?thesis
    by (intro conjI)
qed

theorem create_request_status_witness:
  "authenticate unseeded_db 3 = Inr recipient_user
   \<and> new_BloodRequest request_form 3 = Some (request_created\<lparr>req_status := ''pending''\<rparr>)
   \<and> validate_request (request_created\<lparr>req_status := ''pending''\<rparr>)
   \<and> rb_status request_form = None
   \<and> create_request unseeded_db 3 12 request_form
       = (Inr (request_created\<lparr>req_status := ''pending''\<rparr>),
          unseeded_db\<lparr>requests := (requests unseeded_db)(12 \<mapsto>
             request_created\<lparr>req_status := ''pending''\<rparr>)\<rparr>)
   \<and> inventory (snd (create_request unseeded_db 3 12 request_form)) = []"
  using create_request_status [of unseeded_db 3 recipient_user request_form
      "request_created\<lparr>req_status := ''pending''\<rparr>" 12 "[]"]
  by (simp add: authenticate_def unseeded_db_def sample_db_def recipient_user_def
      request_form_def empty_RequestBody_def new_BloodRequest_def
      validate_request_def request_created_def bloodTypes_def urgencies_def
      request_statuses_def)

subsection \<open>Scheduling a donation\<close>

lemma new_Donation_ignores_bloodType:
  "new_Donation (body\<lparr>dn_bloodType := supplied\<rparr>) uid bt = new_Donation body uid bt"
  by (simp add: new_Donation_def split: option.splits)

lemma new_Donation_bloodType:
  "new_Donation body uid bt = Some d \<Longrightarrow> bt = Some (don_bloodType d)"
  by (auto simp: new_Donation_def split: option.splits)

lemma schedule_donation_ignores_bloodType:
  "schedule_donation s uid nid (body\<lparr>dn_bloodType := supplied\<rparr>) now
     = schedule_donation s uid nid body now"
  unfolding schedule_donation_def new_Donation_ignores_bloodType ..

lemma schedule_donation_success:
  assumes auth: "authenticate s uid = Inr user"
    and elig: "checkEligibility user now"
    and built: "new_Donation body uid (bloodType user) = Some d"
    and valid: "validate_donation d"
  shows "schedule_donation s uid nid body now
           = (Inr d, s\<lparr>donations := (donations s)(nid \<mapsto> d)\<rparr>)"
  using assms authenticate_InrD [OF auth]
  by (simp add: schedule_donation_def save_donation_def)

lemma schedule_donation_ineligible:
  assumes auth: "authenticate s uid = Inr user"
    and inelig: "\<not> checkEligibility user now"
  shows "schedule_donation s uid nid body now = (Inl IneligibleDonor, s)"
  using assms authenticate_InrD [OF auth]
  by (simp add: schedule_donation_def)

lemma schedule_donation_created:
  assumes auth: "authenticate s uid = Inr user"
  shows "(case schedule_donation s uid nid body now of
            (Inr d, s') \<Rightarrow> bloodType user = Some (don_bloodType d) \<and> donations s' nid = Some d
          | (Inl e, s') \<Rightarrow> s' = s)"
  using authenticate_InrD [OF auth] auth
  by (auto simp: schedule_donation_def save_donation_def
      dest: new_Donation_bloodType split: option.splits)

text \<open>
  C7. A donation creation call of an eligible, authenticated user whose body carries a
  \<open>donationDate\<close> and passes the validators creates the same donation whatever
  \<open>bloodType\<close> the body supplies, and the blood type of the created donation is the one
  of the donor's profile. For any body at all, the call either creates a donation with the
  donor's blood type or creates nothing.
\<close>

theorem schedule_donation_bloodType:
  assumes auth: "authenticate s uid = Inr user"
    and elig: "checkEligibility user now"
    and built: "new_Donation body uid (bloodType user) = Some d"
    and valid: "validate_donation d"
  shows "schedule_donation s uid nid (body\<lparr>dn_bloodType := supplied\<rparr>) now
           = (Inr d, s\<lparr>donations := (donations s)(nid \<mapsto> d)\<rparr>)
         \<and> bloodType user = Some (don_bloodType d)
         \<and> (case schedule_donation s uid nid other now of
               (Inr d', s') \<Rightarrow> bloodType user = Some (don_bloodType d')
                                \<and> donations s' nid = Some d'
             | (Inl e, s') \<Rightarrow> s' = s)"
proof -
  have "schedule_donation s uid nid (body\<lparr>dn_bloodType := supplied\<rparr>) now
           = (Inr d, s\<lparr>donations := (donations s)(nid \<mapsto> d)\<rparr>)"
    using schedule_donation_success [OF auth elig built valid]
    by (simp only: schedule_donation_ignores_bloodType)
  moreover have "bloodType user = Some (don_bloodType d)"
    using built by (rule new_Donation_bloodType)
  moreover note schedule_donation_created [OF auth]
  ultimately show ?thesis
    by (intro conjI)
qed

theorem schedule_donation_bloodType_witness:
  "authenticate sample_db 2 = Inr donor_user
   \<and> checkEligibility donor_user 1000
   \<and> new_Donation donate_form 2 (bloodType donor_user) = Some donation_created
   \<and> validate_donation donation_created
   \<and> schedule_donation sample_db 2 30 (donate_form\<lparr>dn_bloodType := Some ''A+''\<rparr>) 1000
       = (Inr donation_created,
          sample_db\<lparr>donations := (donations sample_db)(30 \<mapsto> donation_created)\<rparr>)
   \<and> bloodType donor_user = Some ''O+'' \<and> don_bloodType donation_created = ''O+''"
  using schedule_donation_bloodType [where s = sample_db and uid = 2 and user = donor_user
      and now = 1000 and body = donate_form and d = donation_created
      and supplied = "Some ''A+''" and nid = 30]
  by (simp add: authenticate_def sample_db_def donor_user_def donate_form_def
      new_Donation_def donation_created_def validate_donation_def checkEligibility_def
      bloodTypes_def donation_statuses_def)

lemma checkEligibility_gap:
  "lastDonation user = Some ld \<Longrightarrow> checkEligibility user now = (56 * 86400000 \<le> now - ld)"
  by (simp add: checkEligibility_Some) arith

text \<open>
  C8. When the donor's \<open>lastDonation\<close> is fewer than 56 days before \<open>now\<close>, a donation
  creation call fails with \<open>IneligibleDonor\<close>, whatever its body, and leaves the
  database as it was: no donation is created. The same donor with no \<open>lastDonation\<close>
  succeeds with a form that carries a \<open>donationDate\<close> and passes the validators.
\<close>

theorem schedule_donation_eligibility:
  assumes auth: "authenticate s uid = Inr user"
    and last: "lastDonation user = Some ld"
    and recent: "now - ld < 56 * 86400000"
    and built: "new_Donation form uid (bloodType user) = Some d"
    and valid: "validate_donation d"
  shows "schedule_donation s uid nid body now = (Inl IneligibleDonor, s)
         \<and> schedule_donation (s\<lparr>users := (users s)(uid \<mapsto> user\<lparr>lastDonation := None\<rparr>)\<rparr>)
               uid nid form now
             = (Inr d, s\<lparr>users := (users s)(uid \<mapsto> user\<lparr>lastDonation := None\<rparr>),
                        donations := (donations s)(nid \<mapsto> d)\<rparr>)"
proof -
  have "\<not> checkEligibility user now"
    using last recent by (simp add: checkEligibility_gap)
  then have fails: "schedule_donation s uid nid body now = (Inl IneligibleDonor, s)"
    using auth by (simp add: schedule_donation_ineligible)
  let ?s = "s\<lparr>users := (users s)(uid \<mapsto> user\<lparr>lastDonation := None\<rparr>)\<rparr>"
  have active: "isActive user"
    using authenticate_InrD [OF auth] by simp
  have auth': "authenticate ?s uid = Inr (user\<lparr>lastDonation := None\<rparr>)"
    using active by (simp add: authenticate_def)
  have elig': "checkEligibility (user\<lparr>lastDonation := None\<rparr>) now"
    by (simp add: checkEligibility_None)
  have built': "new_Donation form uid (bloodType (user\<lparr>lastDonation := None\<rparr>)) = Some d"
    using built by simp
  have "schedule_donation ?s uid nid form now
          = (Inr d, ?s\<lparr>donations := (donations ?s)(nid \<mapsto> d)\<rparr>)"
    using auth' elig' built' valid by (rule schedule_donation_success)
  then have succeeds: "schedule_donation ?s uid nid form now
             = (Inr d, s\<lparr>users := (users s)(uid \<mapsto> user\<lparr>lastDonation := None\<rparr>),
                        donations := (donations s)(nid \<mapsto> d)\<rparr>)"
    by simp
  from fails succeeds show ?thesis
    by (intro conjI)
qed

theorem schedule_donation_eligibility_witness:
  "authenticate sample_db 4 = Inr recent_donor
   \<and> lastDonation recent_donor = Some 0
   \<and> (10 * 86400000 :: int) - 0 < 56 * 86400000
   \<and> new_Donation donate_form 4 (bloodType recent_donor)
       = Some (donation_created\<lparr>donor := 4, don_bloodType := ''B+''\<rparr>)
   \<and> validate_donation (donation_created\<lparr>donor := 4, don_bloodType := ''B+''\<rparr>)
   \<and> schedule_donation sample_db 4 30 donate_form (10 * 86400000)
       = (Inl IneligibleDonor, sample_db)
   \<and> donations (snd (schedule_donation sample_db 4 30 donate_form (10 * 86400000))) 30 = None
   \<and> fst (schedule_donation
             (sample_db\<lparr>users := (users sample_db)(4 \<mapsto> recent_donor\<lparr>lastDonation := None\<rparr>)\<rparr>)
             4 30 donate_form (10 * 86400000))
       = Inr (donation_created\<lparr>donor := 4, don_bloodType := ''B+''\<rparr>)"
  using schedule_donation_eligibility [where s = sample_db and uid = 4
      and user = recent_donor and ld = 0 and now = "10 * 86400000" and form = donate_form
      and d = "donation_created\<lparr>donor := 4, don_bloodType := ''B+''\<rparr>" and nid = 30
      and body = donate_form]
  by (simp add: authenticate_def sample_db_def recent_donor_def donate_form_def
      new_Donation_def donation_created_def validate_donation_def
      bloodTypes_def donation_statuses_def)

subsection \<open>Records created on demand\<close>










subsection \<open>The inventory never goes negative\<close>

lemma list_all_update:
  "list_all P al \<Longrightarrow> P (k, v) \<Longrightarrow> list_all P (AList.update k v al)"
  by (induction al) auto

lemma save_inventory_nonneg:
  "units_nonneg s \<Longrightarrow> save_inventory bt stock s = (r, s') \<Longrightarrow> units_nonneg s'"
  by (auto simp: save_inventory_def units_nonneg_def validate_inventory_def
      intro: list_all_update split: if_splits)

lemma save_request_inventory:
  "save_request rid r s = (res, s') \<Longrightarrow> inventory s' = inventory s"
  by (auto simp: save_request_def split: if_splits)

lemma save_donation_inventory:
  "save_donation did d s = (res, s') \<Longrightarrow> inventory s' = inventory s"
  by (auto simp: save_donation_def split: if_splits)

lemma save_user_inventory:
  "save_user uid u s = (res, s') \<Longrightarrow> inventory s' = inventory s"
  by (auto simp: save_user_def split: if_splits)

lemma units_nonneg_cong: "inventory s' = inventory s \<Longrightarrow> units_nonneg s' = units_nonneg s"
  by (simp add: units_nonneg_def)

lemma save_request_nonneg:
  "units_nonneg s \<Longrightarrow> save_request rid r s = (res, s') \<Longrightarrow> units_nonneg s'"
  using save_request_inventory units_nonneg_cong by blast

lemma save_donation_nonneg:
  "units_nonneg s \<Longrightarrow> save_donation did d s = (res, s') \<Longrightarrow> units_nonneg s'"
  using save_donation_inventory units_nonneg_cong by blast

lemma save_user_nonneg:
  "units_nonneg s \<Longrightarrow> save_user uid u s = (res, s') \<Longrightarrow> units_nonneg s'"
  using save_user_inventory units_nonneg_cong by blast

lemma get_inventory_nonneg:
  "units_nonneg s \<Longrightarrow> units_nonneg (snd (get_inventory s uid now))"
  by (simp add: get_inventory_def units_nonneg_def Let_def new_BloodInventory_def
      bloodTypes_def split: sum.splits)

lemma update_inventory_nonneg:
  "units_nonneg s \<Longrightarrow> units_nonneg (snd (update_inventory s uid bt body now))"
  by (auto simp: update_inventory_def Let_def split: sum.splits
      intro: save_inventory_nonneg [OF _ prod.collapse [symmetric]])

lemma add_units_nonneg:
  "units_nonneg s \<Longrightarrow> units_nonneg (snd (add_units s uid bt units e now))"
  by (auto simp: add_units_def Let_def split: sum.splits option.splits
      intro: save_inventory_nonneg [OF _ prod.collapse [symmetric]])

lemma create_request_nonneg:
  "units_nonneg s \<Longrightarrow> units_nonneg (snd (create_request s uid nid body))"
  by (simp add: units_nonneg_cong [OF create_request_inventory])

lemma delete_request_nonneg:
  "units_nonneg s \<Longrightarrow> units_nonneg (snd (delete_request s uid rid))"
  by (simp add: delete_request_def units_nonneg_def split: sum.splits option.splits)

lemma schedule_donation_nonneg:
  "units_nonneg s \<Longrightarrow> units_nonneg (snd (schedule_donation s uid nid body now))"
  by (auto simp: schedule_donation_def split: sum.splits option.splits
      intro: save_donation_nonneg [OF _ prod.collapse [symmetric]])

lemma then_nonneg:
  assumes "units_nonneg (snd p)"
    and "\<And>x s'. units_nonneg s' \<Longrightarrow> units_nonneg (snd (f x s'))"
  shows "units_nonneg (snd (case p of (Inl e, s') \<Rightarrow> (Inl e, s') | (Inr x, s') \<Rightarrow> f x s'))"
  using assms by (cases p; cases "fst p") auto

lemma save_inventory_nonneg_snd:
  "units_nonneg s \<Longrightarrow> units_nonneg (snd (save_inventory bt stock s))"
  by (rule save_inventory_nonneg [OF _ prod.collapse [symmetric]])

lemma save_request_nonneg_snd:
  "units_nonneg s \<Longrightarrow> units_nonneg (snd (save_request rid r s))"
  by (rule save_request_nonneg [OF _ prod.collapse [symmetric]])

lemma save_donation_nonneg_snd:
  "units_nonneg s \<Longrightarrow> units_nonneg (snd (save_donation did d s))"
  by (rule save_donation_nonneg [OF _ prod.collapse [symmetric]])

lemma save_user_nonneg_snd:
  "units_nonneg s \<Longrightarrow> units_nonneg (snd (save_user uid u s))"
  by (rule save_user_nonneg [OF _ prod.collapse [symmetric]])

lemma update_request_status_nonneg:
  assumes "units_nonneg s"
  shows "units_nonneg (snd (update_request_status s uid rid status notes now))"
  unfolding update_request_status_def Let_def
  using assms
  by (auto split: sum.split option.split
      intro!: then_nonneg save_inventory_nonneg_snd save_request_nonneg_snd)

lemma update_donation_status_nonneg:
  assumes "units_nonneg s"
  shows "units_nonneg (snd (update_donation_status s uid did body now))"
  unfolding update_donation_status_def Let_def
  using assms
  by (auto split: sum.split option.split
      intro!: then_nonneg save_inventory_nonneg_snd save_donation_nonneg_snd
        save_user_nonneg_snd)

lemma exec_nonneg: "units_nonneg s \<Longrightarrow> units_nonneg (exec c s)"
  by (cases c)
    (simp_all add: get_inventory_nonneg update_inventory_nonneg add_units_nonneg
      create_request_nonneg update_request_status_nonneg delete_request_nonneg
      schedule_donation_nonneg update_donation_status_nonneg)

text \<open>
  C5. When every inventory record has a non-negative \<open>unitsAvailable\<close>, then after any
  sequence of calls of the API, applied one at a time (add-units, the admin field
  overwrite, request fulfilment, donation completion, and every other modelled call, with
  any arguments and whether they succeed or fail), every inventory record still has a
  non-negative \<open>unitsAvailable\<close>.
\<close>

theorem unitsAvailable_never_negative:
  assumes "units_nonneg s"
  shows "units_nonneg (run cs s)
         \<and> (case map_of (inventory (run cs s)) bt of
               None \<Rightarrow> True
             | Some stock \<Rightarrow> 0 \<le> unitsAvailable stock)"
proof -
  have all: "units_nonneg (run cs s)"
    using assms
  proof (induction cs arbitrary: s)
    case Nil
    then show ?case by simp
  next
    case (Cons c cs)
    from Cons.prems have "units_nonneg (exec c s)"
      by (rule exec_nonneg)
    then have "units_nonneg (run cs (exec c s))"
      by (rule Cons.IH)
    then show ?case by simp
  qed
  have "0 \<le> unitsAvailable stock" if "map_of (inventory (run cs s)) bt = Some stock" for stock
    using all map_of_SomeD [OF that] by (auto simp: units_nonneg_def list_all_iff)
  with all show ?thesis
    by (simp split: option.split)
qed

lemma sample_calls_inventory:
  "inventory (run sample_calls sample_db)
     = [(''O+'', stock_Opos\<lparr>unitsAvailable := 4, lastUpdated := 80\<rparr>)]"
  by (simp add: sample_calls_def sample_db_def add_units_def update_request_status_def
      update_donation_status_def update_inventory_def authenticate_def authorize_def
      save_inventory_def save_request_def save_donation_def save_user_def
      validate_inventory_def validate_request_def validate_donation_def validate_user_def
      admin_user_def donor_user_def stock_Opos_def request_small_def request_large_def
      donation_scheduled_def status_only_def apply_status_body_def or_string_def bloodTypes_def roles_def
      urgencies_def request_statuses_def donation_statuses_def js_add_exact js_sub_exact
      Let_def)

theorem unitsAvailable_never_negative_witness:
  "units_nonneg sample_db
   \<and> units_nonneg (run sample_calls sample_db)
   \<and> map_of (inventory (run sample_calls sample_db)) ''O+''
       = Some (stock_Opos\<lparr>unitsAvailable := 4, lastUpdated := 80\<rparr>)"
  using unitsAvailable_never_negative [of sample_db sample_calls "''O+''"]
  by (simp add: sample_calls_inventory) (simp add: units_nonneg_def sample_db_def stock_Opos_def)

subsection \<open>Updating the status of a donation\<close>

lemma apply_status_body_fields:
  "donor (apply_status_body body uid d) = donor d"
  "donationDate (apply_status_body body uid d) = donationDate d"
  "don_bloodType (apply_status_body body uid d) = don_bloodType d"
  "don_status (apply_status_body body uid d) = sb_status body"
  by (simp_all add: apply_status_body_def Let_def split: option.splits)

lemma apply_status_body_ignores_status:
  "apply_status_body body uid (d\<lparr>don_status := current\<rparr>) = apply_status_body body uid d"
  by (simp add: apply_status_body_def Let_def split: option.splits)

lemma validate_user_donated:
  "validate_user u \<Longrightarrow> validate_user (u\<lparr>lastDonation := l, donationCount := c\<rparr>)"
  by (simp add: validate_user_def split: option.splits)

lemma units_nonneg_lookup:
  "units_nonneg s \<Longrightarrow> map_of (inventory s) bt = Some stock \<Longrightarrow> 0 \<le> unitsAvailable stock"
  by (auto simp: units_nonneg_def list_all_iff dest: map_of_SomeD)

text \<open>
  C2, as stated, fails. Before anybody has listed the inventory there is no inventory
  record: completing the scheduled donation then succeeds and updates the donor, and no
  \<open>unitsAvailable\<close> is incremented, because the handler skips a missing record. And the
  three writes are three separate saves: with \<open>unitsCollected = 3\<close> the donor and the
  inventory are written, then the donation fails its validator, the answer is an error
  and the donation stays scheduled. And the handler adds doubles: on a record of \<open>2^53\<close>
  units the completion of a donation of one unit succeeds and leaves \<open>2^53\<close> units.
\<close>

theorem complete_donation_counterexample:
  "inventory unseeded_db = []
   \<and> donations unseeded_db 20 = Some donation_scheduled
   \<and> users unseeded_db 2 = Some donor_user
   \<and> update_donation_status unseeded_db 1 20 (status_only ''completed'') 1000
       = (Inr donation_completed,
          unseeded_db\<lparr>users := (users unseeded_db)(2 \<mapsto>
                         donor_user\<lparr>lastDonation := Some 700, donationCount := 1\<rparr>),
                      donations := (donations unseeded_db)(20 \<mapsto> donation_completed)\<rparr>)
   \<and> inventory (snd (update_donation_status unseeded_db 1 20 (status_only ''completed'') 1000))
       = []
   \<and> update_donation_status sample_db 1 20
         ((status_only ''completed'')\<lparr>sb_unitsCollected := Some 3\<rparr>) 1000
       = (Inl ServerError,
          sample_db\<lparr>users := (users sample_db)(2 \<mapsto>
                         donor_user\<lparr>lastDonation := Some 700, donationCount := 1\<rparr>),
                    inventory := [(''O+'', stock_Opos\<lparr>unitsAvailable := 8,
                                                     lastUpdated := 1000\<rparr>)]\<rparr>)
   \<and> unitsCollected donation_completed = 1
   \<and> update_donation_status full_db 1 20 (status_only ''completed'') 1000
       = (Inr donation_completed,
          full_db\<lparr>users := (users full_db)(2 \<mapsto>
                       donor_user\<lparr>lastDonation := Some 700, donationCount := 1\<rparr>),
                  inventory := [(''O+'', stock_full\<lparr>unitsAvailable := 9007199254740992,
                                                   lastUpdated := 1000\<rparr>)],
                  donations := (donations full_db)(20 \<mapsto> donation_completed)\<rparr>)
   \<and> unitsAvailable stock_full = 9007199254740992"
  by (simp add: unseeded_db_def full_db_def sample_db_def update_donation_status_def
      authenticate_def authorize_def apply_status_body_def save_user_def save_donation_def
      save_inventory_def validate_user_def validate_donation_def validate_inventory_def
      admin_user_def donor_user_def donation_scheduled_def donation_completed_def
      status_only_def stock_Opos_def stock_full_def or_string_def roles_def bloodTypes_def
      donation_statuses_def js_add_exact js_add_rounds Let_def)

lemma complete_donation_result:
  assumes auth: "authenticate s uid = Inr user"
    and admin: "role user = ''admin''"
    and found: "donations s did = Some d"
    and completed: "sb_status body = ''completed''"
    and valid: "validate_donation (apply_status_body body uid d)"
    and dnr: "users s (donor d) = Some dnr"
    and vdnr: "validate_user dnr"
    and count: "\<bar>donationCount dnr\<bar> < 9007199254740992"
    and nonneg: "units_nonneg s"
    and room: "case map_of (inventory s) (don_bloodType d) of
                 None \<Rightarrow> True
               | Some stock \<Rightarrow>
                   unitsAvailable stock + unitsCollected (apply_status_body body uid d)
                     \<le> 9007199254740992"
  shows "update_donation_status s uid did body now =
           (Inr (apply_status_body body uid d),
            s\<lparr>users := (users s)(donor d \<mapsto>
                   dnr\<lparr>lastDonation := Some (donationDate d),
                       donationCount := donationCount dnr + 1\<rparr>),
              inventory :=
                (case map_of (inventory s) (don_bloodType d) of
                   None \<Rightarrow> inventory s
                 | Some stock \<Rightarrow>
                     AList.update (don_bloodType d)
                       (stock\<lparr>unitsAvailable :=
                                unitsAvailable stock
                                + unitsCollected (apply_status_body body uid d),
                              lastUpdated := now\<rparr>) (inventory s)),
              donations := (donations s)(did \<mapsto> apply_status_body body uid d)\<rparr>)"
proof -
  let ?d = "apply_status_body body uid d"
  let ?dnr = "dnr\<lparr>lastDonation := Some (donationDate d), donationCount := donationCount dnr + 1\<rparr>"
  let ?s1 = "s\<lparr>users := (users s)(donor d \<mapsto> ?dnr)\<rparr>"
  have adm: "authorize [''admin''] user"
    using admin by (simp add: authorize_def)
  have u: "1 \<le> unitsCollected ?d" "unitsCollected ?d \<le> 2"
    and bt: "don_bloodType d \<in> set bloodTypes"
    using valid by (simp_all add: validate_donation_def apply_status_body_fields)
  have counted: "js_add (donationCount dnr) 1 = Some (donationCount dnr + 1)"
    using count by (intro js_add_exact) simp_all
  have user_saved: "save_user (donor d) ?dnr s = (Inr ?dnr, ?s1)"
    using vdnr by (simp add: save_user_def validate_user_donated)
  show ?thesis
  proof (cases "map_of (inventory s) (don_bloodType d)")
    case None
    then show ?thesis
      using auth adm found completed valid dnr counted user_saved
      by (simp add: update_donation_status_def Let_def apply_status_body_fields
          save_donation_def)
  next
    case (Some stock)
    have low: "0 \<le> unitsAvailable stock"
      using nonneg Some by (rule units_nonneg_lookup)
    have high: "unitsAvailable stock + unitsCollected ?d \<le> 9007199254740992"
      using room Some by simp
    have summed: "js_add (unitsAvailable stock) (unitsCollected ?d)
                    = Some (unitsAvailable stock + unitsCollected ?d)"
      using low high u by (intro js_add_exact) simp_all
    have vi: "validate_inventory (don_bloodType d)
        (stock\<lparr>unitsAvailable := unitsAvailable stock + unitsCollected ?d,
               lastUpdated := now\<rparr>)"
      using low u bt by (simp add: validate_inventory_def)
    have nz: "unitsCollected ?d \<noteq> 0"
      using u by simp
    show ?thesis
      using auth adm found completed valid dnr counted user_saved Some summed vi nz
      by (simp add: update_donation_status_def Let_def apply_status_body_fields
          save_donation_def save_inventory_def)
  qed
qed

text \<open>
  C2, amended. When an admin sets an existing donation to \<open>completed\<close>, the donor exists
  and validates, the donation passes its validators after the update (so its
  \<open>unitsCollected = u\<close> is 1 or 2), and the counts are whole numbers within the exact
  integers (the donor's \<open>donationCount\<close> below \<open>2^53\<close>, the record's
  \<open>unitsAvailable + u\<close> at most \<open>2^53\<close>): the call succeeds, the donor's \<open>lastDonation\<close> is the donation's
  \<open>donationDate\<close> and the \<open>donationCount\<close> is one more; if the inventory has a record for
  the donation's blood type, its \<open>unitsAvailable\<close> is increased by exactly \<open>u\<close> and its
  \<open>lastUpdated\<close> is \<open>now\<close>; if it has none, the inventory is unchanged.
\<close>

theorem complete_donation:
  assumes auth: "authenticate s uid = Inr user"
    and admin: "role user = ''admin''"
    and found: "donations s did = Some d"
    and completed: "sb_status body = ''completed''"
    and valid: "validate_donation (apply_status_body body uid d)"
    and dnr: "users s (donor d) = Some dnr"
    and vdnr: "validate_user dnr"
    and count: "\<bar>donationCount dnr\<bar> < 9007199254740992"
    and nonneg: "units_nonneg s"
    and room: "case map_of (inventory s) (don_bloodType d) of
                 None \<Rightarrow> True
               | Some stock \<Rightarrow>
                   unitsAvailable stock + unitsCollected (apply_status_body body uid d)
                     \<le> 9007199254740992"
  shows "update_donation_status s uid did body now =
           (Inr (apply_status_body body uid d),
            s\<lparr>users := (users s)(donor d \<mapsto>
                   dnr\<lparr>lastDonation := Some (donationDate d),
                       donationCount := donationCount dnr + 1\<rparr>),
              inventory :=
                (case map_of (inventory s) (don_bloodType d) of
                   None \<Rightarrow> inventory s
                 | Some stock \<Rightarrow>
                     AList.update (don_bloodType d)
                       (stock\<lparr>unitsAvailable :=
                                unitsAvailable stock
                                + unitsCollected (apply_status_body body uid d),
                              lastUpdated := now\<rparr>) (inventory s)),
              donations := (donations s)(did \<mapsto> apply_status_body body uid d)\<rparr>)
         \<and> don_status (apply_status_body body uid d) = ''completed''"
  using complete_donation_result [OF assms] completed
  by (simp add: apply_status_body_fields)

theorem complete_donation_witness:
  "authenticate sample_db 1 = Inr admin_user
   \<and> role admin_user = ''admin''
   \<and> donations sample_db 20 = Some donation_scheduled
   \<and> validate_donation (apply_status_body (status_only ''completed'') 1 donation_scheduled)
   \<and> users sample_db (donor donation_scheduled) = Some donor_user
   \<and> validate_user donor_user
   \<and> \<bar>donationCount donor_user\<bar> < 9007199254740992
   \<and> units_nonneg sample_db
   \<and> update_donation_status sample_db 1 20 (status_only ''completed'') 1000
       = (Inr donation_completed,
          sample_db\<lparr>users := (users sample_db)(2 \<mapsto>
                         donor_user\<lparr>lastDonation := Some 700, donationCount := 1\<rparr>),
                    inventory := [(''O+'', stock_Opos\<lparr>unitsAvailable := 6,
                                                     lastUpdated := 1000\<rparr>)],
                    donations := (donations sample_db)(20 \<mapsto> donation_completed)\<rparr>)"
  using complete_donation [where s = sample_db and uid = 1 and user = admin_user
      and did = 20 and d = donation_scheduled and body = "status_only ''completed''"
      and dnr = donor_user and now = 1000]
  by (simp add: sample_db_def authenticate_def apply_status_body_def
      validate_user_def validate_donation_def admin_user_def units_nonneg_def
      donor_user_def donation_scheduled_def donation_completed_def status_only_def
      stock_Opos_def or_string_def roles_def bloodTypes_def donation_statuses_def Let_def)

lemma update_donation_status_cases:
  "(case update_donation_status s uid did body now of
      (Inr d', s') \<Rightarrow> don_status d' = sb_status body \<and> donations s' did = Some d'
    | (Inl e, s') \<Rightarrow> donations s' = donations s)"
  by (simp add: update_donation_status_def Let_def save_user_def save_inventory_def
      save_donation_def apply_status_body_fields split: sum.split option.split)

lemma update_donation_status_ignores_status:
  assumes found: "donations s did = Some d"
  shows "fst (update_donation_status
                (s\<lparr>donations := (donations s)(did \<mapsto> d\<lparr>don_status := current\<rparr>)\<rparr>)
                uid did body now)
           = fst (update_donation_status s uid did body now)"
  using found
  by (simp add: update_donation_status_def authenticate_def Let_def
      apply_status_body_ignores_status save_user_def save_inventory_def save_donation_def
      split: sum.split option.split)

text \<open>
  C6, as stated, fails: the handler assigns the status of the body without looking at the
  current one, so an admin moves a completed donation back to \<open>scheduled\<close>.
\<close>

theorem terminal_status_counterexample:
  "authenticate sample_db 1 = Inr admin_user
   \<and> donations sample_db 21 = Some donation_completed
   \<and> don_status donation_completed = ''completed''
   \<and> update_donation_status sample_db 1 21 (status_only ''scheduled'') 1000
       = (Inr (donation_completed\<lparr>don_status := ''scheduled''\<rparr>),
          sample_db\<lparr>donations := (donations sample_db)(21 \<mapsto>
             donation_completed\<lparr>don_status := ''scheduled''\<rparr>)\<rparr>)"
  by (simp add: sample_db_def update_donation_status_def authenticate_def
      authorize_def apply_status_body_def save_donation_def
      validate_donation_def admin_user_def
      donation_scheduled_def donation_completed_def status_only_def
      or_string_def bloodTypes_def donation_statuses_def Let_def)

text \<open>
  C6, amended. The status update of a donation does not look at the current status, so a
  donation leaves a terminal state like any other. For an existing donation: the answer of
  any update is the same whatever the current status of the donation is; an admin's update
  to a status other than \<open>completed\<close>, under which the updated donation passes the
  validators (an enumerated status, \<open>unitsCollected\<close> 1 or 2), succeeds and stores the
  donation with the status of the body; and any update at all, \<open>completed\<close> included,
  either stores the donation with the status of the body or leaves the donations as they
  were.
\<close>

theorem update_donation_status_unguarded:
  assumes auth: "authenticate s uid = Inr user"
    and admin: "role user = ''admin''"
    and found: "donations s did = Some d"
    and other: "sb_status body \<noteq> ''completed''"
    and valid: "validate_donation (apply_status_body body uid d)"
  shows "update_donation_status s uid did body now
           = (Inr (apply_status_body body uid d),
              s\<lparr>donations := (donations s)(did \<mapsto> apply_status_body body uid d)\<rparr>)
         \<and> don_status (apply_status_body body uid d) = sb_status body
         \<and> (case update_donation_status s uid did any now of
               (Inr d', s') \<Rightarrow> don_status d' = sb_status any \<and> donations s' did = Some d'
             | (Inl e, s') \<Rightarrow> donations s' = donations s)
         \<and> fst (update_donation_status
                  (s\<lparr>donations := (donations s)(did \<mapsto> d\<lparr>don_status := current\<rparr>)\<rparr>)
                  uid did any now)
             = fst (update_donation_status s uid did any now)"
proof -
  have adm: "authorize [''admin''] user"
    using admin by (simp add: authorize_def)
  have "update_donation_status s uid did body now
           = (Inr (apply_status_body body uid d),
              s\<lparr>donations := (donations s)(did \<mapsto> apply_status_body body uid d)\<rparr>)"
    using auth adm found other valid
    by (simp add: update_donation_status_def Let_def save_donation_def)
  moreover have "don_status (apply_status_body body uid d) = sb_status body"
    by (simp add: apply_status_body_fields)
  moreover note update_donation_status_cases
    update_donation_status_ignores_status [OF found]
  ultimately show ?thesis
    by (intro conjI)
qed

theorem update_donation_status_unguarded_witness:
  "authenticate sample_db 1 = Inr admin_user
   \<and> role admin_user = ''admin''
   \<and> donations sample_db 21 = Some donation_completed
   \<and> don_status donation_completed = ''completed''
   \<and> validate_donation (apply_status_body (status_only ''cancelled'') 1 donation_completed)
   \<and> update_donation_status sample_db 1 21 (status_only ''cancelled'') 1000
       = (Inr (donation_completed\<lparr>don_status := ''cancelled''\<rparr>),
          sample_db\<lparr>donations := (donations sample_db)(21 \<mapsto>
             donation_completed\<lparr>don_status := ''cancelled''\<rparr>)\<rparr>)"
  using update_donation_status_unguarded [where s = sample_db and uid = 1
      and user = admin_user and did = 21 and d = donation_completed
      and body = "status_only ''cancelled''" and now = 1000]
  by (simp add: sample_db_def authenticate_def apply_status_body_def
      validate_donation_def admin_user_def
      donation_scheduled_def donation_completed_def status_only_def
      or_string_def bloodTypes_def donation_statuses_def Let_def)

end
